theory Spec2Isabelle
  imports Complex_Main
begin

section \<open>Phaser.Device: the capability record and its media queries\<close>

text \<open>
  \<^verbatim>\<open>Phaser.Device\<close> is a singleton object. Subscriber callbacks and their contexts are
  host values whose bodies are not part of the file, so they are identified by a number, and
  every call the registry makes to the host or to a subscriber is appended to a trace. Of
  what a callback does when it is called, only whether it returns or throws is modelled; it
  is taken to leave the fields below alone.
\<close>

type_synonym callback = nat
type_synonym ctxt = nat

text \<open>
  The two properties that \<^verbatim>\<open>whenReady\<close> puts on the function object
  \<^verbatim>\<open>Phaser.Device._readyCheck\<close>: \<^verbatim>\<open>_monitor\<close> (the bound function, here only whether
  it is defined) and \<^verbatim>\<open>_queue\<close> (\<open>None\<close> while it is \<^verbatim>\<open>undefined\<close>).
\<close>

record readyCheckProps =
  monitor :: bool
  queue :: "(callback \<times> ctxt) list option"

text \<open>
  The fields of the device object that the modelled functions read or write. The media flags
  are the ones \<^verbatim>\<open>canPlayAudio\<close> and \<^verbatim>\<open>canPlayVideo\<close> look at; a flag is modelled by its
  truthiness. \<open>readyCheckFn\<close>, \<open>initializeFn\<close> and \<open>onInitialized\<close> stand for the properties
  \<^verbatim>\<open>_readyCheck\<close>, \<^verbatim>\<open>_initialize\<close> and \<^verbatim>\<open>onInitialized\<close>, which the ready transition
  sets to \<^verbatim>\<open>null\<close>.
\<close>

record device =
  deviceReadyAt :: int
  initialized :: bool
  ogg :: bool
  opus :: bool
  mp3 :: bool
  wav :: bool
  m4a :: bool
  webm :: bool
  oggVideo :: bool
  h264Video :: bool
  mp4Video :: bool
  webmVideo :: bool
  vp9Video :: bool
  hlsVideo :: bool
  readyCheckFn :: "readyCheckProps option"
  initializeFn :: bool
  onInitialized :: bool

text \<open>The object built by \<^verbatim>\<open>new Phaser.Device()\<close>, with the two static methods and the signal
  attached to it afterwards.\<close>

definition newDevice :: device where
  "newDevice = \<lparr> deviceReadyAt = 0, initialized = False,
     ogg = False, opus = False, mp3 = False, wav = False, m4a = False, webm = False,
     oggVideo = False, h264Video = False, mp4Video = False, webmVideo = False,
     vp9Video = False, hlsVideo = False,
     readyCheckFn = Some \<lparr> monitor = False, queue = None \<rparr>,
     initializeFn = True, onInitialized = True \<rparr>"

definition canPlayAudio :: "device \<Rightarrow> string \<Rightarrow> bool" where
  "canPlayAudio d type =
     (if type = ''mp3'' \<and> mp3 d then True
      else if type = ''ogg'' \<and> (ogg d \<or> opus d) then True
      else if type = ''m4a'' \<and> m4a d then True
      else if type = ''opus'' \<and> opus d then True
      else if type = ''wav'' \<and> wav d then True
      else if type = ''webm'' \<and> webm d then True
      else False)"

definition canPlayVideo :: "device \<Rightarrow> string \<Rightarrow> bool" where
  "canPlayVideo d type =
     (if type = ''webm'' \<and> (webmVideo d \<or> vp9Video d) then True
      else if type = ''mp4'' \<and> (mp4Video d \<or> h264Video d) then True
      else if (type = ''ogg'' \<or> type = ''ogv'') \<and> oggVideo d then True
      else if type = ''mpeg'' \<and> hlsVideo d then True
      else False)"

text \<open>The media kinds each query compares its argument with, and the flags each kind reads.\<close>

definition audioKinds :: "string list" where
  "audioKinds = [''mp3'', ''ogg'', ''m4a'', ''opus'', ''wav'', ''webm'']"

definition videoKinds :: "string list" where
  "videoKinds = [''webm'', ''mp4'', ''ogg'', ''ogv'', ''mpeg'']"

definition audioFlags :: "device \<Rightarrow> string \<Rightarrow> bool list" where
  "audioFlags d type =
     (if type = ''mp3'' then [mp3 d]
      else if type = ''ogg'' then [ogg d, opus d]
      else if type = ''m4a'' then [m4a d]
      else if type = ''opus'' then [opus d]
      else if type = ''wav'' then [wav d]
      else if type = ''webm'' then [webm d]
      else [])"

definition videoFlags :: "device \<Rightarrow> string \<Rightarrow> bool list" where
  "videoFlags d type =
     (if type = ''webm'' then [webmVideo d, vp9Video d]
      else if type = ''mp4'' then [mp4Video d, h264Video d]
      else if type = ''ogg'' \<or> type = ''ogv'' then [oggVideo d]
      else if type = ''mpeg'' then [hlsVideo d]
      else [])"

section \<open>The host, the trace and the probe pass\<close>

text \<open>
  What the registry reads from the host when one of its functions runs:
  \<^verbatim>\<open>document.readyState\<close>, whether \<^verbatim>\<open>document.body\<close> is there, whether
  \<^verbatim>\<open>window.cordova\<close> is defined, the truthiness of \<^verbatim>\<open>navigator['isCocoonJS']\<close>, the value of
  \<^verbatim>\<open>Date.now()\<close>, and the \<^verbatim>\<open>canPlayType\<close> methods of a new audio and a new video element
  (\<open>None\<close> when the element has no such method). The queries name the MIME strings the
  probes ask about, in the order of the source: for audio \<^verbatim>\<open>audio/ogg; codecs="vorbis"\<close>,
  \<^verbatim>\<open>audio/ogg; codecs="opus"\<close>, \<^verbatim>\<open>audio/opus;\<close>, \<^verbatim>\<open>audio/mpeg;\<close>,
  \<^verbatim>\<open>audio/wav; codecs="1"\<close>, \<^verbatim>\<open>audio/x-m4a;\<close>, \<^verbatim>\<open>audio/aac;\<close> and
  \<^verbatim>\<open>audio/webm; codecs="vorbis"\<close>; for video \<^verbatim>\<open>video/ogg; codecs="theora"\<close>,
  \<^verbatim>\<open>video/mp4; codecs="avc1.42E01E"\<close>, \<^verbatim>\<open>video/webm; codecs="vp8, vorbis"\<close>,
  \<^verbatim>\<open>video/webm; codecs="vp9"\<close> and \<^verbatim>\<open>application/x-mpegURL; codecs="avc1.42E01E"\<close>.
\<close>

datatype audioQuery = OggVorbis | OggOpus | OpusOnly | Mpeg | Wav | XM4a | Aac | WebmVorbis

datatype videoQuery = OggTheora | Mp4Avc1 | WebmVp8 | WebmVp9 | MpegURL

record host =
  readyState :: string
  body :: bool
  cordova :: bool
  isCocoonJS :: bool
  now :: int
  audioCanPlayType :: "(audioQuery \<Rightarrow> string) option"
  videoCanPlayType :: "(videoQuery \<Rightarrow> string) option"

datatype target = Document | Window

text \<open>
  The calls the registry makes: \<^verbatim>\<open>callback.call(context, this)\<close>, whose argument is always
  the device object itself; \<^verbatim>\<open>window.setTimeout(readyCheck._monitor, delay)\<close>;
  \<^verbatim>\<open>addEventListener\<close> and \<^verbatim>\<open>removeEventListener\<close> with the monitor on the document or
  the window; \<^verbatim>\<open>this._initialize()\<close>; \<^verbatim>\<open>this.onInitialized.dispatch(this)\<close>.
\<close>

datatype event =
    Call callback ctxt
  | SetTimeout nat
  | AddEventListener target string
  | RemoveEventListener target string
  | Initialize
  | Dispatch

record world =
  dev :: device
  trace :: "event list"

definition emit :: "event list \<Rightarrow> world \<Rightarrow> world" where
  "emit es w = w\<lparr>trace := trace w @ es\<rparr>"

definition newWorld :: world where
  "newWorld = \<lparr> dev = newDevice, trace = [] \<rparr>"

text \<open>\<^verbatim>\<open>s.replace(/^no$/, '')\<close> used as a condition: the result is truthy when it is not empty.\<close>

definition replaceNo :: "string \<Rightarrow> string" where
  "replaceNo s = (if s = ''no'' then [] else s)"

definition truthy :: "string \<Rightarrow> bool" where
  "truthy s = (s \<noteq> [])"

text \<open>
  The two probes of \<^verbatim>\<open>_initialize\<close> that write the media flags. A probe only ever sets a
  flag to true. \<^verbatim>\<open>canPlayType\<close> is taken to return a string, so the probes' \<^verbatim>\<open>try\<close> blocks
  never catch anything here. The other probes write fields that no modelled function reads.
\<close>

definition checkAudio :: "host \<Rightarrow> device \<Rightarrow> device" where
  "checkAudio h d =
     (case audioCanPlayType h of
        None \<Rightarrow> d
      | Some cpt \<Rightarrow>
          d\<lparr> ogg := ogg d \<or> truthy (replaceNo (cpt OggVorbis)),
             opus := opus d \<or> truthy (replaceNo (cpt OggOpus)) \<or> truthy (replaceNo (cpt OpusOnly)),
             mp3 := mp3 d \<or> truthy (replaceNo (cpt Mpeg)),
             wav := wav d \<or> truthy (replaceNo (cpt Wav)),
             m4a := m4a d \<or> truthy (cpt XM4a) \<or> truthy (replaceNo (cpt Aac)),
             webm := webm d \<or> truthy (replaceNo (cpt WebmVorbis)) \<rparr>)"

definition checkVideo :: "host \<Rightarrow> device \<Rightarrow> device" where
  "checkVideo h d =
     (case videoCanPlayType h of
        None \<Rightarrow> d
      | Some cpt \<Rightarrow>
          d\<lparr> oggVideo := oggVideo d \<or> truthy (replaceNo (cpt OggTheora)),
             h264Video := h264Video d \<or> truthy (replaceNo (cpt Mp4Avc1)),
             mp4Video := mp4Video d \<or> truthy (replaceNo (cpt Mp4Avc1)),
             webmVideo := webmVideo d \<or> truthy (replaceNo (cpt WebmVp8)),
             vp9Video := vp9Video d \<or> truthy (replaceNo (cpt WebmVp9)),
             hlsVideo := hlsVideo d \<or> truthy (replaceNo (cpt MpegURL)) \<rparr>)"

definition initialize :: "host \<Rightarrow> device \<Rightarrow> device" where
  "initialize h d = checkVideo h (checkAudio h d)"

section \<open>Phaser.Device.whenReady and Phaser.Device._readyCheck\<close>

text \<open>\<^verbatim>\<open>readyCheck._queue || []\<close>: the queue, or a new empty array while it is undefined.\<close>

definition queueOrEmpty :: "readyCheckProps \<Rightarrow> (callback \<times> ctxt) list" where
  "queueOrEmpty rc = (case queue rc of None \<Rightarrow> [] | Some q \<Rightarrow> q)"

definition setReadyCheck :: "readyCheckProps \<Rightarrow> world \<Rightarrow> world" where
  "setReadyCheck rc w = w\<lparr>dev := (dev w)\<lparr>readyCheckFn := Some rc\<rparr>\<rparr>"

text \<open>
  \<^verbatim>\<open>whenReady(callback, context, nonPrimer)\<close>, with \<^verbatim>\<open>nonPrimer\<close> by its truthiness. The first
  test is \<^verbatim>\<open>this.deviceReadyAt || !readyCheck\<close>.
\<close>

definition whenReady :: "callback \<Rightarrow> ctxt \<Rightarrow> bool \<Rightarrow> host \<Rightarrow> world \<Rightarrow> world" where
  "whenReady cb cx nonPrimer h w =
     (case readyCheckFn (dev w) of
        None \<Rightarrow> emit [Call cb cx] w
      | Some rc \<Rightarrow>
          if deviceReadyAt (dev w) \<noteq> 0 then emit [Call cb cx] w
          else if monitor rc \<or> nonPrimer then
            setReadyCheck (rc\<lparr>queue := Some (queueOrEmpty rc @ [(cb, cx)])\<rparr>) w
          else
            (let w1 = setReadyCheck
                        (rc\<lparr>monitor := True, queue := Some (queueOrEmpty rc @ [(cb, cx)])\<rparr>) w
             in if readyState h = ''complete'' \<or> readyState h = ''interactive'' then
                  emit [SetTimeout 0] w1
                else if cordova h \<and> \<not> isCocoonJS h then
                  emit [AddEventListener Document ''deviceready''] w1
                else
                  emit [AddEventListener Document ''DOMContentLoaded'',
                        AddEventListener Window ''load''] w1))"

text \<open>How a call ends: it returns, or an exception leaves it (in the functions below, the
  \<^verbatim>\<open>TypeError\<close> of a property read on \<^verbatim>\<open>null\<close> or of a call of something that is not a
  function). What was written before the exception stays written.\<close>

datatype completion = Returned | Threw

text \<open>
  Whether a subscriber throws when it is called: a predicate on the callback and its
  context. \<open>returning\<close> is the case in which every subscriber returns.
\<close>

type_synonym thrower = "callback \<Rightarrow> ctxt \<Rightarrow> bool"

definition returning :: thrower where
  "returning cb cx = False"

text \<open>
  The loop \<^verbatim>\<open>while ((item = readyCheck._queue.shift()))\<close>: every item is an array, hence
  truthy, so the loop ends when the queue is empty, or when a subscriber throws, since the
  call is in no \<^verbatim>\<open>try\<close> block. \<^verbatim>\<open>shift\<close> has taken the item off the queue before the call, so
  after a throw the queue holds the items behind the thrower. The result is how the loop
  ended, what is left in the queue, and the state.
\<close>

fun drainWith ::
    "thrower \<Rightarrow> (callback \<times> ctxt) list \<Rightarrow> world \<Rightarrow> completion \<times> (callback \<times> ctxt) list \<times> world"
  where
  "drainWith throws [] w = (Returned, [], w)"
| "drainWith throws ((cb, cx) # q) w =
     (if throws cb cx then (Threw, q, emit [Call cb cx] w)
      else drainWith throws q (emit [Call cb cx] w))"

text \<open>
  \<^verbatim>\<open>_readyCheck\<close>. An exception of a subscriber leaves it before the three properties are
  set to \<^verbatim>\<open>null\<close>.
\<close>

definition readyCheckWith :: "thrower \<Rightarrow> host \<Rightarrow> world \<Rightarrow> completion \<times> world" where
  "readyCheckWith throws h w =
     (if \<not> body h then
        (case readyCheckFn (dev w) of
           None \<Rightarrow> (Threw, w)
         | Some rc \<Rightarrow> (Returned, emit [SetTimeout 20] w))
      else if deviceReadyAt (dev w) = 0 then
        (let w1 = w\<lparr>dev := (dev w)\<lparr>deviceReadyAt := now h\<rparr>\<rparr>
         in case readyCheckFn (dev w1) of
              None \<Rightarrow> (Threw, w1)
            | Some rc \<Rightarrow>
                (let w2 = emit [RemoveEventListener Document ''deviceready'',
                                RemoveEventListener Document ''DOMContentLoaded'',
                                RemoveEventListener Window ''load''] w1
                 in if \<not> initializeFn (dev w2) then (Threw, w2)
                    else
                      (let w3 = emit [Initialize] (w2\<lparr>dev := initialize h (dev w2)\<rparr>);
                           w4 = w3\<lparr>dev := (dev w3)\<lparr>initialized := True\<rparr>\<rparr>
                       in if \<not> onInitialized (dev w4) then (Threw, w4)
                          else
                            (let w5 = emit [Dispatch] w4
                             in case queue rc of
                                  None \<Rightarrow> (Threw, w5)
                                | Some q \<Rightarrow>
                                    (case drainWith throws q w5 of
                                       (Threw, rest, w6) \<Rightarrow>
                                         (Threw, setReadyCheck (rc\<lparr>queue := Some rest\<rparr>) w6)
                                     | (Returned, rest, w6) \<Rightarrow>
                                         (Returned,
                                          w6\<lparr>dev := (dev w6)\<lparr>readyCheckFn := None,
                                                 initializeFn := False,
                                                 onInitialized := False\<rparr>\<rparr>))))))
      else (Returned, w))"

text \<open>The check when every subscriber returns.\<close>

definition readyCheck :: "host \<Rightarrow> world \<Rightarrow> completion \<times> world" where
  "readyCheck h w = readyCheckWith returning h w"

text \<open>
  A subscription is a call of \<^verbatim>\<open>whenReady\<close> together with the host it finds; a firing is an
  invocation of the monitor, that is of \<^verbatim>\<open>_readyCheck\<close> bound to the device, by a host
  signal or timer. An error that leaves a firing goes to the host's event loop, and the
  device stays as the firing left it. \<open>subscribe\<close> and \<open>fire\<close> are sequences of the one and
  of the other, \<open>fire\<close> with subscribers that return; \<open>run\<close> is any sequence of both, with
  subscribers that may throw. In \<^verbatim>\<open>whenReady\<close> the call of the subscriber is the last thing
  done, so the state it leaves is the same whether the subscriber returns or throws.
\<close>

type_synonym subscription = "callback \<times> ctxt \<times> bool \<times> host"

fun subscribe :: "subscription list \<Rightarrow> world \<Rightarrow> world" where
  "subscribe [] w = w"
| "subscribe ((cb, cx, nonPrimer, h) # ss) w = subscribe ss (whenReady cb cx nonPrimer h w)"

fun fire :: "host list \<Rightarrow> world \<Rightarrow> world" where
  "fire [] w = w"
| "fire (h # hs) w = fire hs (snd (readyCheck h w))"



text \<open>The pairs waiting in the queue, none once \<^verbatim>\<open>_readyCheck\<close> is \<^verbatim>\<open>null\<close>.\<close>

definition pendingSubscribers :: "world \<Rightarrow> (callback \<times> ctxt) list" where
  "pendingSubscribers w =
     (case readyCheckFn (dev w) of None \<Rightarrow> [] | Some rc \<Rightarrow> queueOrEmpty rc)"

section \<open>Phaser.RequestAnimationFrame\<close>

text \<open>
  \<open>loopFn\<close> names the two closures \<^verbatim>\<open>start\<close> can store in \<^verbatim>\<open>_onLoop\<close>: the one that calls
  \<^verbatim>\<open>updateSetTimeout\<close> and the one that calls \<^verbatim>\<open>updateRAF\<close>.
\<close>

datatype loopFn = LoopSetTimeout | LoopRAF

record raf =
  isRunning :: bool
  forceSetTimeOut :: bool
  priv_isSetTimeOut :: bool
  priv_onLoop :: "loopFn option"
  priv_timeOutID :: "nat option"

text \<open>A request the host holds until it runs or is cancelled: the callback it was given
  and, for a timer, the delay.\<close>

datatype request = FrameRequest "loopFn option" | TimerRequest "loopFn option" int

text \<open>
  The calls the scheduler makes: \<^verbatim>\<open>window.requestAnimationFrame\<close> and
  \<^verbatim>\<open>window.setTimeout\<close> with the handle they return, \<^verbatim>\<open>clearTimeout\<close> and
  \<^verbatim>\<open>window.cancelAnimationFrame\<close> with the handle they are given, and the driver
  \<^verbatim>\<open>this.game.update(time)\<close>.
\<close>

datatype schedEvent =
    ReqFrame nat
  | ReqTimer nat int
  | ClearTimer "nat option"
  | CancelFrame "nat option"
  | GameUpdate int

text \<open>
  The scheduler object with what it shares with the host: which properties of \<^verbatim>\<open>window\<close>
  are defined, \<^verbatim>\<open>game.time.timeToCall\<close>, the next handle the host hands out, the requests
  the host holds, oldest first, and the log of calls.
\<close>

record loop =
  sched :: raf
  window :: "string \<Rightarrow> bool"
  timeToCall :: int
  nextId :: nat
  pending :: "(nat \<times> request) list"
  log :: "schedEvent list"

text \<open>The driver \<^verbatim>\<open>game.update\<close> is the caller's: any function of the time and of the
  whole state, which may call the scheduler's methods and may throw.\<close>

type_synonym driver = "int \<Rightarrow> loop \<Rightarrow> completion \<times> loop"

definition vendors :: "string list" where
  "vendors = [''ms'', ''moz'', ''webkit'', ''o'']"

text \<open>The constructor's loop over the vendor prefixes, which runs while
  \<^verbatim>\<open>window.requestAnimationFrame\<close> is falsy.\<close>

fun vendorLoop :: "string list \<Rightarrow> (string \<Rightarrow> bool) \<Rightarrow> (string \<Rightarrow> bool)" where
  "vendorLoop [] win = win"
| "vendorLoop (v # vs) win =
     (if win ''requestAnimationFrame'' then win
      else vendorLoop vs
             (win(''requestAnimationFrame'' := win (v @ ''RequestAnimationFrame''),
                  ''cancelAnimationFrame'' := win (v @ ''CancelAnimationFrame''))))"

text \<open>
  The constructor \<^verbatim>\<open>Phaser.RequestAnimationFrame(game, forceSetTimeOut)\<close>, on a window
  \<open>win\<close>. The second argument may be left out (\<open>None\<close>) and is then \<^verbatim>\<open>false\<close>; of the game
  only \<^verbatim>\<open>game.time.timeToCall\<close> is kept.
\<close>

definition newRequestAnimationFrame ::
    "bool option \<Rightarrow> (string \<Rightarrow> bool) \<Rightarrow> int \<Rightarrow> loop" where
  "newRequestAnimationFrame force win ttc =
     \<lparr> sched = \<lparr> isRunning = False,
                 forceSetTimeOut = (case force of None \<Rightarrow> False | Some b \<Rightarrow> b),
                 priv_isSetTimeOut = False,
                 priv_onLoop = None, priv_timeOutID = None \<rparr>,
       window = vendorLoop vendors win,
       timeToCall = ttc, nextId = 0, pending = [], log = [] \<rparr>"

definition requestAnimationFrame :: "loopFn option \<Rightarrow> loop \<Rightarrow> nat \<times> loop" where
  "requestAnimationFrame f w =
     (nextId w, w\<lparr>nextId := Suc (nextId w),
                  pending := pending w @ [(nextId w, FrameRequest f)],
                  log := log w @ [ReqFrame (nextId w)]\<rparr>)"

definition setTimeout :: "loopFn option \<Rightarrow> int \<Rightarrow> loop \<Rightarrow> nat \<times> loop" where
  "setTimeout f delay w =
     (nextId w, w\<lparr>nextId := Suc (nextId w),
                  pending := pending w @ [(nextId w, TimerRequest f delay)],
                  log := log w @ [ReqTimer (nextId w) delay]\<rparr>)"

fun isFrame :: "request \<Rightarrow> bool" where
  "isFrame (FrameRequest f) = True"
| "isFrame (TimerRequest f d) = False"

definition clearTimeout :: "nat option \<Rightarrow> loop \<Rightarrow> loop" where
  "clearTimeout i w =
     w\<lparr>pending := filter (\<lambda>(j, r). \<not> (Some j = i \<and> \<not> isFrame r)) (pending w),
       log := log w @ [ClearTimer i]\<rparr>"

definition cancelAnimationFrame :: "nat option \<Rightarrow> loop \<Rightarrow> loop" where
  "cancelAnimationFrame i w =
     w\<lparr>pending := filter (\<lambda>(j, r). \<not> (Some j = i \<and> isFrame r)) (pending w),
       log := log w @ [CancelFrame i]\<rparr>"

definition setTimeOutID :: "nat \<times> loop \<Rightarrow> loop" where
  "setTimeOutID r = (snd r)\<lparr>sched := (sched (snd r))\<lparr>priv_timeOutID := Some (fst r)\<rparr>\<rparr>"

definition start :: "loop \<Rightarrow> loop" where
  "start w =
     (let w1 = w\<lparr>sched := (sched w)\<lparr>isRunning := True\<rparr>\<rparr>
      in if \<not> window w1 ''requestAnimationFrame'' \<or> forceSetTimeOut (sched w1) then
           (let w2 = w1\<lparr>sched := (sched w1)\<lparr>priv_isSetTimeOut := True,
                                               priv_onLoop := Some LoopSetTimeout\<rparr>\<rparr>
            in setTimeOutID (setTimeout (priv_onLoop (sched w2)) 0 w2))
         else
           (let w2 = w1\<lparr>sched := (sched w1)\<lparr>priv_isSetTimeOut := False,
                                               priv_onLoop := Some LoopRAF\<rparr>\<rparr>
            in setTimeOutID (requestAnimationFrame (priv_onLoop (sched w2)) w2)))"

definition updateRAF :: "driver \<Rightarrow> real \<Rightarrow> loop \<Rightarrow> completion \<times> loop" where
  "updateRAF update rafTime w =
     (case update \<lfloor>rafTime\<rfloor> (w\<lparr>log := log w @ [GameUpdate \<lfloor>rafTime\<rfloor>]\<rparr>) of
        (Threw, w1) \<Rightarrow> (Threw, w1)
      | (Returned, w1) \<Rightarrow>
          if \<not> window w1 ''requestAnimationFrame'' then (Threw, w1)
          else (Returned, setTimeOutID (requestAnimationFrame (priv_onLoop (sched w1)) w1)))"

definition updateSetTimeout :: "driver \<Rightarrow> int \<Rightarrow> loop \<Rightarrow> completion \<times> loop" where
  "updateSetTimeout update dateNow w =
     (case update dateNow (w\<lparr>log := log w @ [GameUpdate dateNow]\<rparr>) of
        (Threw, w1) \<Rightarrow> (Threw, w1)
      | (Returned, w1) \<Rightarrow>
          (Returned, setTimeOutID (setTimeout (priv_onLoop (sched w1)) (timeToCall w1) w1)))"

definition stop :: "loop \<Rightarrow> completion \<times> loop" where
  "stop w =
     (if priv_isSetTimeOut (sched w) then
        (let w1 = clearTimeout (priv_timeOutID (sched w)) w
         in (Returned, w1\<lparr>sched := (sched w1)\<lparr>isRunning := False\<rparr>\<rparr>))
      else if \<not> window w ''cancelAnimationFrame'' then (Threw, w)
      else
        (let w1 = cancelAnimationFrame (priv_timeOutID (sched w)) w
         in (Returned, w1\<lparr>sched := (sched w1)\<lparr>isRunning := False\<rparr>\<rparr>)))"

definition isSetTimeOut :: "loop \<Rightarrow> bool" where
  "isSetTimeOut w = priv_isSetTimeOut (sched w)"

definition isRAF :: "loop \<Rightarrow> bool" where
  "isRAF w = (priv_isSetTimeOut (sched w) = False)"

text \<open>
  The host runs the oldest request it holds: it forgets the request and calls the closure
  it was given, a frame callback with the frame's time stamp, a timer callback with no
  argument (\<open>dateNow\<close> is what \<^verbatim>\<open>Date.now()\<close> returns during that call). A request that
  was given \<^verbatim>\<open>null\<close> runs nothing. An exception goes to the host's event loop.
\<close>

definition onLoop :: "driver \<Rightarrow> loopFn option \<Rightarrow> real \<Rightarrow> int \<Rightarrow> loop \<Rightarrow> completion \<times> loop" where
  "onLoop update f rafTime dateNow w =
     (case f of
        None \<Rightarrow> (Returned, w)
      | Some LoopSetTimeout \<Rightarrow> updateSetTimeout update dateNow w
      | Some LoopRAF \<Rightarrow> updateRAF update rafTime w)"

definition hostRuns :: "driver \<Rightarrow> real \<Rightarrow> int \<Rightarrow> loop \<Rightarrow> loop" where
  "hostRuns update rafTime dateNow w =
     (case pending w of
        [] \<Rightarrow> w
      | (i, FrameRequest f) # rest \<Rightarrow> snd (onLoop update f rafTime dateNow (w\<lparr>pending := rest\<rparr>))
      | (i, TimerRequest f d) # rest \<Rightarrow> snd (onLoop update f rafTime dateNow (w\<lparr>pending := rest\<rparr>)))"

section \<open>Auxiliary definitions for the statements\<close>

text \<open>The listener events of one arming, by host inspection, as \<^verbatim>\<open>whenReady\<close> orders them.\<close>

definition strategy :: "host \<Rightarrow> event list" where
  "strategy h =
     (if readyState h = ''complete'' \<or> readyState h = ''interactive'' then [SetTimeout 0]
      else if cordova h \<and> \<not> isCocoonJS h then [AddEventListener Document ''deviceready'']
      else [AddEventListener Document ''DOMContentLoaded'', AddEventListener Window ''load''])"

text \<open>The first test of \<^verbatim>\<open>whenReady\<close>: the device has its ready time, or \<^verbatim>\<open>_readyCheck\<close>
  is gone.\<close>

definition ready :: "world \<Rightarrow> bool" where
  "ready w = (deviceReadyAt (dev w) \<noteq> 0 \<or> readyCheckFn (dev w) = None)"

definition subscriber :: "subscription \<Rightarrow> callback \<times> ctxt" where
  "subscriber s = (fst s, fst (snd s))"

definition notify :: "callback \<times> ctxt \<Rightarrow> event" where
  "notify p = Call (fst p) (snd p)"

text \<open>The host found by the first subscription whose \<^verbatim>\<open>nonPrimer\<close> is false, if there is one.\<close>

fun primer :: "subscription list \<Rightarrow> host option" where
  "primer [] = None"
| "primer ((cb, cx, nonPrimer, h) # ss) = (if nonPrimer then primer ss else Some h)"

definition attached :: "host option \<Rightarrow> event list" where
  "attached p = (case p of None \<Rightarrow> [] | Some h \<Rightarrow> strategy h)"





fun isCall :: "event \<Rightarrow> bool" where
  "isCall (Call cb cx) = True"
| "isCall e = False"

definition calls :: "event list \<Rightarrow> event list" where
  "calls es = filter isCall es"




subsection \<open>Concrete hosts and drivers\<close>

text \<open>A page still loading, without a body; a parsed page; a page loading inside Cordova.\<close>

definition loadingHost :: host where
  "loadingHost = \<lparr> readyState = ''loading'', body = False, cordova = False, isCocoonJS = False,
     now = 1000, audioCanPlayType = None, videoCanPlayType = None \<rparr>"

definition parsedHost :: host where
  "parsedHost = \<lparr> readyState = ''interactive'', body = True, cordova = False,
     isCocoonJS = False, now = 2000, audioCanPlayType = None, videoCanPlayType = None \<rparr>"

definition cordovaHost :: host where
  "cordovaHost = \<lparr> readyState = ''loading'', body = False, cordova = True, isCocoonJS = False,
     now = 1000, audioCanPlayType = None, videoCanPlayType = None \<rparr>"

text \<open>A window with the unprefixed frame primitives, one with WebKit's prefixed ones only,
  and one with timers only.\<close>

definition nativeWindow :: "string \<Rightarrow> bool" where
  "nativeWindow p = (p = ''requestAnimationFrame'' \<or> p = ''cancelAnimationFrame'')"

definition webkitWindow :: "string \<Rightarrow> bool" where
  "webkitWindow p = (p = ''webkitRequestAnimationFrame'' \<or> p = ''webkitCancelAnimationFrame'')"

definition timerWindow :: "string \<Rightarrow> bool" where
  "timerWindow p = False"



text \<open>The driver \<^verbatim>\<open>function (time) { raf.stop(); }\<close>.\<close>

definition stopDriver :: driver where
  "stopDriver t w = stop w"

section \<open>Lemmas about the registry\<close>

lemmas device_defs = whenReady_def readyCheck_def readyCheckWith_def returning_def Let_def
  emit_def setReadyCheck_def newWorld_def newDevice_def queueOrEmpty_def initialize_def
  checkAudio_def checkVideo_def loadingHost_def parsedHost_def cordovaHost_def

lemma dev_emit [simp]: "dev (emit es w) = dev w"
  by (simp add: emit_def)

lemma trace_emit [simp]: "trace (emit es w) = trace w @ es"
  by (simp add: emit_def)

lemma ready_emit [simp]: "ready (emit es w) = ready w"
  by (simp add: ready_def)


lemma notify_subscriber_eq: "(\<lambda>(cb, cx, nonPrimer, h). Call cb cx) = notify \<circ> subscriber"
  by (auto simp: notify_def subscriber_def fun_eq_iff)

lemma strategy_not_Nil: "strategy h \<noteq> []"
  by (simp add: strategy_def)


lemma newWorld_waiting:
  "deviceReadyAt (dev newWorld) = 0"
  "readyCheckFn (dev newWorld) = Some \<lparr> monitor = False, queue = None \<rparr>"
  "initializeFn (dev newWorld)" "onInitialized (dev newWorld)" "trace newWorld = []"
  by (simp_all add: newWorld_def newDevice_def)




text \<open>Whoever throws, the subscribers called are the head of the queue, in order, and the
  rest stays queued; the loop returns only with the queue empty.\<close>

lemma drainWith_prefix:
  "drainWith throws q w = (c, rest, w') \<Longrightarrow>
     \<exists>called. q = called @ rest \<and> trace w' = trace w @ map notify called \<and>
       (c = Returned \<longrightarrow> rest = [])"
proof (induction q arbitrary: w)
  case Nil
  then show ?case by simp
next
  case (Cons p q)
  obtain cb cx where p: "p = (cb, cx)" by (cases p)
  show ?case
  proof (cases "throws cb cx")
    case True
    with Cons.prems have "rest = q" "w' = emit [Call cb cx] w" "c = Threw"
      by (simp_all add: p)
    then have "p # q = [p] @ rest \<and> trace w' = trace w @ map notify [p] \<and>
       (c = Returned \<longrightarrow> rest = [])"
      by (simp add: p notify_def)
    then show ?thesis by blast
  next
    case False
    with Cons.prems have "drainWith throws q (emit [Call cb cx] w) = (c, rest, w')"
      by (simp add: p)
    from Cons.IH [OF this] obtain called where
      "q = called @ rest" "trace w' = trace w @ [Call cb cx] @ map notify called"
      "c = Returned \<longrightarrow> rest = []"
      by auto
    then have "p # q = (p # called) @ rest \<and> trace w' = trace w @ map notify (p # called) \<and>
       (c = Returned \<longrightarrow> rest = [])"
      by (simp add: p notify_def)
    then show ?thesis by blast
  qed
qed


subsection \<open>Subscribing once ready\<close>

lemma whenReady_ready:
  "ready w \<Longrightarrow> whenReady cb cx nonPrimer h w = emit [Call cb cx] w"
  by (auto simp: ready_def whenReady_def split: option.splits)

lemma subscribe_ready:
  "ready w \<Longrightarrow> subscribe ss w = emit (map (notify \<circ> subscriber) ss) w"
proof (induction ss arbitrary: w)
  case Nil
  show ?case by (simp add: emit_def)
next
  case (Cons s ss)
  obtain cb cx np h where s: "s = (cb, cx, np, h)" by (cases s)
  have "subscribe (s # ss) w = subscribe ss (emit [Call cb cx] w)"
    by (simp add: s whenReady_ready [OF Cons.prems])
  also have "\<dots> = emit (map (notify \<circ> subscriber) ss) (emit [Call cb cx] w)"
    by (rule Cons.IH) (simp add: Cons.prems)
  finally show ?case by (simp add: s emit_def notify_def subscriber_def)
qed

subsection \<open>Subscribing before the ready transition\<close>

lemma whenReady_waiting:
  assumes "deviceReadyAt (dev w) = 0" and "readyCheckFn (dev w) = Some rc"
  shows "whenReady cb cx nonPrimer h w =
           \<lparr> dev = (dev w)\<lparr>readyCheckFn :=
                      Some (rc\<lparr>monitor := monitor rc \<or> \<not> nonPrimer,
                               queue := Some (queueOrEmpty rc @ [(cb, cx)])\<rparr>)\<rparr>,
             trace = trace w @ (if monitor rc \<or> nonPrimer then [] else strategy h) \<rparr>"
  using assms
  by (cases "monitor rc")
    (simp_all add: whenReady_def Let_def emit_def setReadyCheck_def strategy_def)

lemma subscribe_waiting:
  assumes "deviceReadyAt (dev w) = 0" and "readyCheckFn (dev w) = Some rc" and "ss \<noteq> []"
  shows "subscribe ss w =
           \<lparr> dev = (dev w)\<lparr>readyCheckFn :=
                      Some (rc\<lparr>monitor := monitor rc \<or> primer ss \<noteq> None,
                               queue := Some (queueOrEmpty rc @ map subscriber ss)\<rparr>)\<rparr>,
             trace = trace w @ (if monitor rc then [] else attached (primer ss)) \<rparr>"
  using assms
proof (induction ss arbitrary: w rc)
  case Nil
  then show ?case by simp
next
  case (Cons s ss)
  obtain cb cx np h where s: "s = (cb, cx, np, h)" by (cases s)
  let ?rc = "rc\<lparr>monitor := monitor rc \<or> \<not> np, queue := Some (queueOrEmpty rc @ [(cb, cx)])\<rparr>"
  let ?w = "whenReady cb cx np h w"
  have step: "?w = \<lparr> dev = (dev w)\<lparr>readyCheckFn := Some ?rc\<rparr>,
                      trace = trace w @ (if monitor rc \<or> np then [] else strategy h) \<rparr>"
    by (rule whenReady_waiting [OF Cons.prems(1,2)])
  show ?case
  proof (cases "ss = []")
    case True
    then show ?thesis
      by (simp add: s step subscriber_def attached_def)
  next
    case False
    have d: "deviceReadyAt (dev ?w) = 0" and r: "readyCheckFn (dev ?w) = Some ?rc"
      by (simp_all add: step Cons.prems(1))
    have "subscribe (s # ss) w = subscribe ss ?w" by (simp add: s)
    also note Cons.IH [OF d r False]
    finally show ?thesis
      by (simp add: s step subscriber_def attached_def queueOrEmpty_def)
  qed
qed

lemma trace_subscribe_new: "trace (subscribe ss newWorld) = attached (primer ss)"
proof (cases "ss = []")
  case True
  then show ?thesis by (simp add: newWorld_waiting attached_def)
next
  case False
  show ?thesis
    by (simp add: subscribe_waiting [OF newWorld_waiting(1,2) False] newWorld_waiting)
qed

lemma primer_append:
  "primer (ss @ ts) = (case primer ss of None \<Rightarrow> primer ts | Some h \<Rightarrow> Some h)"
  by (induction ss rule: primer.induct) simp_all

subsection \<open>The readiness check\<close>








subsection \<open>The invariants\<close>





lemma calls_append [simp]: "calls (xs @ ys) = calls xs @ calls ys"
  by (simp add: calls_def)


lemma calls_Call [simp]: "calls [Call cb cx] = [Call cb cx]"
  by (simp add: calls_def)





section \<open>Lemmas about the frame scheduler\<close>

lemmas sched_defs = start_def stop_def updateRAF_def updateSetTimeout_def onLoop_def hostRuns_def
  newRequestAnimationFrame_def requestAnimationFrame_def setTimeout_def clearTimeout_def
  cancelAnimationFrame_def setTimeOutID_def isSetTimeOut_def isRAF_def Let_def vendors_def
  nativeWindow_def webkitWindow_def timerWindow_def stopDriver_def

text \<open>After the constructor's loop the frame primitive is defined exactly when the window
  had it, or had a prefixed one the loop looked at.\<close>

lemma vendorLoop_raf:
  "vendorLoop vs win ''requestAnimationFrame'' =
     (win ''requestAnimationFrame'' \<or> (\<exists>v \<in> set vs. win (v @ ''RequestAnimationFrame'')))"
proof (induction vs arbitrary: win)
  case Nil
  show ?case by simp
next
  case (Cons v vs)
  have ne: "u @ ''RequestAnimationFrame'' \<noteq> ''requestAnimationFrame''"
    "u @ ''RequestAnimationFrame'' \<noteq> ''cancelAnimationFrame''" for u :: string
    by (cases u; simp add: append_eq_Cons_conv; cases "tl u"; simp)+
  show ?case
    by (auto simp: Cons.IH ne)
qed

lemma newRequestAnimationFrame_fresh:
  "log (newRequestAnimationFrame force win ttc) = []"
  "nextId (newRequestAnimationFrame force win ttc) = 0"
  by (simp_all add: newRequestAnimationFrame_def)

text \<open>
  Whatever the driver did, when it returns \<^verbatim>\<open>updateRAF\<close> asks for the next frame and
  \<^verbatim>\<open>updateSetTimeout\<close> for the next timer; neither looks at \<^verbatim>\<open>isRunning\<close>.
\<close>

lemma updateRAF_requests:
  assumes "update \<lfloor>rafTime\<rfloor> (w\<lparr>log := log w @ [GameUpdate \<lfloor>rafTime\<rfloor>]\<rparr>) = (Returned, w1)"
    and "window w1 ''requestAnimationFrame''"
  shows "log (snd (updateRAF update rafTime w)) = log w1 @ [ReqFrame (nextId w1)] \<and>
         pending (snd (updateRAF update rafTime w)) =
           pending w1 @ [(nextId w1, FrameRequest (priv_onLoop (sched w1)))] \<and>
         isRunning (sched (snd (updateRAF update rafTime w))) = isRunning (sched w1)"
  using assms by (simp add: updateRAF_def requestAnimationFrame_def setTimeOutID_def)

lemma updateSetTimeout_requests:
  assumes "update dateNow (w\<lparr>log := log w @ [GameUpdate dateNow]\<rparr>) = (Returned, w1)"
  shows "log (snd (updateSetTimeout update dateNow w)) =
           log w1 @ [ReqTimer (nextId w1) (timeToCall w1)] \<and>
         pending (snd (updateSetTimeout update dateNow w)) =
           pending w1 @ [(nextId w1, TimerRequest (priv_onLoop (sched w1)) (timeToCall w1))] \<and>
         isRunning (sched (snd (updateSetTimeout update dateNow w))) = isRunning (sched w1)"
  using assms by (simp add: updateSetTimeout_def setTimeout_def setTimeOutID_def)

section \<open>The ready transition\<close>




section \<open>The frame scheduler and a driver that stops it\<close>

text \<open>
  Claim C2 says that once the driver has called \<^verbatim>\<open>stop()\<close> during its own invocation, no
  further scheduling request is made and the driver is not invoked again. The code does
  otherwise. On a window with \<^verbatim>\<open>requestAnimationFrame\<close>, with the driver
  \<^verbatim>\<open>function () { raf.stop(); }\<close>: \<^verbatim>\<open>start()\<close> makes request 0; the host runs it; the driver
  runs and \<^verbatim>\<open>stop()\<close> cancels handle 0 and clears \<^verbatim>\<open>isRunning\<close>; then \<^verbatim>\<open>updateRAF\<close> makes
  request 1, which the host holds, and at the next frame the driver runs again. The same
  happens with timers when the fallback is forced.
\<close>

theorem stop_in_driver_reschedules:
  "log (hostRuns stopDriver (167 / 10) 2000 (start (newRequestAnimationFrame (Some False) nativeWindow 16))) =
     [ReqFrame 0, GameUpdate 16, CancelFrame (Some 0), ReqFrame 1] \<and>
   isRunning (sched (hostRuns stopDriver (167 / 10) 2000
     (start (newRequestAnimationFrame (Some False) nativeWindow 16)))) = False \<and>
   pending (hostRuns stopDriver (167 / 10) 2000
     (start (newRequestAnimationFrame (Some False) nativeWindow 16))) = [(1, FrameRequest (Some LoopRAF))] \<and>
   log (hostRuns stopDriver (334 / 10) 2016 (hostRuns stopDriver (167 / 10) 2000
     (start (newRequestAnimationFrame (Some False) nativeWindow 16)))) =
     [ReqFrame 0, GameUpdate 16, CancelFrame (Some 0), ReqFrame 1,
      GameUpdate 33, CancelFrame (Some 1), ReqFrame 2] \<and>
   log (hostRuns stopDriver 0 2016 (hostRuns stopDriver 0 2000
     (start (newRequestAnimationFrame (Some True) nativeWindow 16)))) =
     [ReqTimer 0 0, GameUpdate 2000, ClearTimer (Some 0), ReqTimer 1 16,
      GameUpdate 2016, ClearTimer (Some 1), ReqTimer 2 16]"
  by (simp add: sched_defs)

theorem stop_in_driver_reschedules_witness:
  "last (log (hostRuns stopDriver (167 / 10) 2000
     (start (newRequestAnimationFrame (Some False) nativeWindow 16)))) = ReqFrame 1 \<and>
   last (log (hostRuns stopDriver 0 2016 (hostRuns stopDriver 0 2000
     (start (newRequestAnimationFrame (Some True) nativeWindow 16))))) = ReqTimer 2 16"
  using stop_in_driver_reschedules by simp

section \<open>Subscribing\<close>

text \<open>
  Claim C3. Once the registry is ready, \<^verbatim>\<open>whenReady(callback, context, nonPrimer)\<close> invokes
  the callback exactly once before it returns, with the context as receiver (and the device
  as argument: the only argument a \<open>Call\<close> has), and changes nothing else, so nothing is
  put in the queue; and so it is for any number of such calls in a row.
\<close>

theorem whenReady_after_ready:
  assumes "ready w"
  shows "whenReady cb cx nonPrimer h w = w\<lparr>trace := trace w @ [Call cb cx]\<rparr> \<and>
         subscribe ss w =
           w\<lparr>trace := trace w @ map (\<lambda>(cb, cx, nonPrimer, h). Call cb cx) ss\<rparr> \<and>
         pendingSubscribers (subscribe ss w) = pendingSubscribers w"
  using assms
  by (simp add: whenReady_ready subscribe_ready emit_def pendingSubscribers_def
      notify_subscriber_eq)

theorem whenReady_after_ready_witness:
  "ready (fire [parsedHost] (whenReady 1 2 False loadingHost newWorld)) \<and>
   trace (whenReady 3 4 True loadingHost
            (fire [parsedHost] (whenReady 1 2 False loadingHost newWorld))) =
     trace (fire [parsedHost] (whenReady 1 2 False loadingHost newWorld)) @ [Call 3 4] \<and>
   pendingSubscribers (subscribe [(3, 4, True, loadingHost), (5, 6, False, parsedHost)]
            (fire [parsedHost] (whenReady 1 2 False loadingHost newWorld))) = []"
  using whenReady_after_ready [of "fire [parsedHost] (whenReady 1 2 False loadingHost newWorld)"
      3 4 True loadingHost "[(3, 4, True, loadingHost), (5, 6, False, parsedHost)]"]
  by (simp add: ready_def pendingSubscribers_def device_defs)






text \<open>
  Claim C6. Arming happens at most once. In any sequence of \<^verbatim>\<open>whenReady\<close> calls on a new
  registry, if one call attaches a listener then no call before it did and no call after it
  does. And a call that finds the monitor set, or is made with \<^verbatim>\<open>nonPrimer\<close>, in a registry
  that is not ready, only appends its pair to the queue: the trace stays as it was.
\<close>

theorem arming_at_most_once:
  "(trace (subscribe (ss @ [s]) newWorld) \<noteq> trace (subscribe ss newWorld) \<longrightarrow>
      trace (subscribe ss newWorld) = [] \<and>
      trace (subscribe (ss @ s # ts) newWorld) = trace (subscribe (ss @ [s]) newWorld)) \<and>
   (deviceReadyAt (dev w) = 0 \<and> readyCheckFn (dev w) = Some rc \<and> (monitor rc \<or> nonPrimer) \<longrightarrow>
      whenReady cb cx nonPrimer h w =
        w\<lparr>dev := (dev w)\<lparr>readyCheckFn :=
                     Some (rc\<lparr>queue := Some (queueOrEmpty rc @ [(cb, cx)])\<rparr>)\<rparr>\<rparr>)"
proof (intro conjI impI)
  assume neq: "trace (subscribe (ss @ [s]) newWorld) \<noteq> trace (subscribe ss newWorld)"
  obtain c x n g where s: "s = (c, x, n, g)" by (cases s)
  from neq have p: "primer ss = None"
    by (auto simp: trace_subscribe_new primer_append split: option.splits)
  with neq have n: "\<not> n"
    by (auto simp: trace_subscribe_new primer_append s split: if_splits)
  show "trace (subscribe ss newWorld) = []"
    by (simp add: trace_subscribe_new p attached_def)
  show "trace (subscribe (ss @ s # ts) newWorld) = trace (subscribe (ss @ [s]) newWorld)"
    by (simp add: trace_subscribe_new primer_append p s n)
next
  assume "deviceReadyAt (dev w) = 0 \<and> readyCheckFn (dev w) = Some rc \<and> (monitor rc \<or> nonPrimer)"
  then show "whenReady cb cx nonPrimer h w =
        w\<lparr>dev := (dev w)\<lparr>readyCheckFn :=
                     Some (rc\<lparr>queue := Some (queueOrEmpty rc @ [(cb, cx)])\<rparr>)\<rparr>\<rparr>"
    by (auto simp: whenReady_def setReadyCheck_def)
qed

theorem arming_at_most_once_witness:
  "trace (subscribe ([(1, 2, True, loadingHost)] @ [(3, 4, False, loadingHost)]) newWorld) \<noteq>
     trace (subscribe [(1, 2, True, loadingHost)] newWorld) \<and>
   trace (subscribe [(1, 2, True, loadingHost)] newWorld) = [] \<and>
   trace (subscribe ([(1, 2, True, loadingHost)] @ (3, 4, False, loadingHost) #
       [(5, 6, False, parsedHost)]) newWorld) =
     trace (subscribe ([(1, 2, True, loadingHost)] @ [(3, 4, False, loadingHost)]) newWorld) \<and>
   deviceReadyAt (dev (whenReady 1 2 False loadingHost newWorld)) = 0 \<and>
   readyCheckFn (dev (whenReady 1 2 False loadingHost newWorld)) =
     Some \<lparr> monitor = True, queue = Some [(1, 2)] \<rparr> \<and>
   pendingSubscribers (whenReady 3 4 False parsedHost (whenReady 1 2 False loadingHost newWorld)) =
     [(1, 2), (3, 4)] \<and>
   trace (whenReady 3 4 False parsedHost (whenReady 1 2 False loadingHost newWorld)) =
     trace (whenReady 1 2 False loadingHost newWorld)"
  using arming_at_most_once [of "[(1, 2, True, loadingHost)]" "(3, 4, False, loadingHost)"
      "[(5, 6, False, parsedHost)]" "whenReady 1 2 False loadingHost newWorld"
      "\<lparr> monitor = True, queue = Some [(1, 2)] \<rparr>" False 3 4 parsedHost]
  by (simp add: pendingSubscribers_def device_defs)

section \<open>Starting the frame scheduler\<close>

text \<open>
  Claim C7. \<^verbatim>\<open>start()\<close> takes the timer path exactly when \<^verbatim>\<open>window.requestAnimationFrame\<close>
  is missing or \<^verbatim>\<open>forceSetTimeOut\<close> is set; \<^verbatim>\<open>isSetTimeOut()\<close> then returns
  true exactly in that case and \<^verbatim>\<open>isRAF()\<close> its negation; \<^verbatim>\<open>isRunning\<close> is true; and the
  one request \<^verbatim>\<open>start()\<close> makes is a timer on that path and a frame on the other. For a
  scheduler just constructed that is: the fallback was forced at construction, or the
  window has neither \<^verbatim>\<open>requestAnimationFrame\<close> nor one of the four prefixed forms.
\<close>

theorem start_selects_path:
  "isSetTimeOut (start w) = (\<not> window w ''requestAnimationFrame'' \<or> forceSetTimeOut (sched w)) \<and>
   isRAF (start w) = (\<not> isSetTimeOut (start w)) \<and>
   isRunning (sched (start w)) \<and>
   log (start w) = log w @ [if isSetTimeOut (start w) then ReqTimer (nextId w) 0
                            else ReqFrame (nextId w)] \<and>
   isSetTimeOut (start (newRequestAnimationFrame force win ttc)) =
     (force = Some True \<or> \<not> (win ''requestAnimationFrame'' \<or> win ''msRequestAnimationFrame'' \<or>
                  win ''mozRequestAnimationFrame'' \<or> win ''webkitRequestAnimationFrame'' \<or>
                  win ''oRequestAnimationFrame''))"
proof -
  have "window (newRequestAnimationFrame force win ttc) ''requestAnimationFrame'' =
     (win ''requestAnimationFrame'' \<or> win ''msRequestAnimationFrame'' \<or>
      win ''mozRequestAnimationFrame'' \<or> win ''webkitRequestAnimationFrame'' \<or>
      win ''oRequestAnimationFrame'')"
    by (simp add: newRequestAnimationFrame_def vendorLoop_raf vendors_def)
  moreover have "forceSetTimeOut (sched (newRequestAnimationFrame force win ttc)) =
      (force = Some True)"
    by (simp add: newRequestAnimationFrame_def split: option.splits)
  moreover have a: "isSetTimeOut (start w) =
      (\<not> window w ''requestAnimationFrame'' \<or> forceSetTimeOut (sched w))" for w
    by (simp add: isSetTimeOut_def start_def Let_def setTimeOutID_def setTimeout_def
        requestAnimationFrame_def)
  moreover have "isRunning (sched (start w))"
    by (simp add: start_def Let_def setTimeOutID_def setTimeout_def requestAnimationFrame_def)
  moreover have "log (start w) = log w @ [if isSetTimeOut (start w) then ReqTimer (nextId w) 0
                            else ReqFrame (nextId w)]"
    unfolding a
    by (simp add: start_def Let_def setTimeOutID_def setTimeout_def requestAnimationFrame_def)
  ultimately show ?thesis
    by (auto simp: isRAF_def isSetTimeOut_def)
qed

theorem start_selects_path_witness:
  "isRAF (start (newRequestAnimationFrame (Some False) nativeWindow 16)) \<and>
   isRAF (start (newRequestAnimationFrame (Some False) webkitWindow 16)) \<and>
   isSetTimeOut (start (newRequestAnimationFrame (Some True) nativeWindow 16)) \<and>
   isSetTimeOut (start (newRequestAnimationFrame None timerWindow 16)) \<and>
   log (start (newRequestAnimationFrame None timerWindow 16)) = [ReqTimer 0 0]"
proof -
  note built = start_selects_path [THEN conjunct2, THEN conjunct2, THEN conjunct2, THEN conjunct2]
  have a: "\<not> isSetTimeOut (start (newRequestAnimationFrame (Some False) nativeWindow 16))"
    by (simp add: built nativeWindow_def)
  have b: "\<not> isSetTimeOut (start (newRequestAnimationFrame (Some False) webkitWindow 16))"
    by (simp add: built webkitWindow_def)
  have c: "isSetTimeOut (start (newRequestAnimationFrame (Some True) nativeWindow 16))"
    by (simp add: built)
  have d: "isSetTimeOut (start (newRequestAnimationFrame None timerWindow 16))"
    by (simp add: built timerWindow_def)
  have e: "log (start (newRequestAnimationFrame None timerWindow 16)) = [ReqTimer 0 0]"
    using start_selects_path [of "newRequestAnimationFrame None timerWindow 16"] d
    by (simp add: newRequestAnimationFrame_fresh)
  have f: "isRAF (start w) = (\<not> isSetTimeOut (start w))" for w
    using start_selects_path [of w] by simp
  show ?thesis by (simp add: a b c d e f)
qed

section \<open>Arming\<close>

text \<open>
  Claim C8. The first \<^verbatim>\<open>whenReady\<close> call that arms (the registry is not ready, no monitor is
  set, \<^verbatim>\<open>nonPrimer\<close> is false) sets the monitor, queues its pair and attaches by exactly one
  strategy, chosen in this order: a document that is complete or interactive gets the check
  scheduled by \<^verbatim>\<open>setTimeout(..., 0)\<close>; else under Cordova without CocoonJS only
  \<^verbatim>\<open>'deviceready'\<close> is listened for; else both \<^verbatim>\<open>'DOMContentLoaded'\<close> on the document and
  \<^verbatim>\<open>'load'\<close> on the window are. Nothing else happens in the call: the check does not run
  in it.
\<close>

theorem arming_strategy:
  assumes "deviceReadyAt (dev w) = 0" and "readyCheckFn (dev w) = Some rc" and "\<not> monitor rc"
  shows "whenReady cb cx False h w =
           \<lparr> dev = (dev w)\<lparr>readyCheckFn :=
                      Some (rc\<lparr>monitor := True, queue := Some (queueOrEmpty rc @ [(cb, cx)])\<rparr>)\<rparr>,
             trace = trace w @
               (if readyState h = ''complete'' \<or> readyState h = ''interactive'' then
                  [SetTimeout 0]
                else if cordova h \<and> \<not> isCocoonJS h then
                  [AddEventListener Document ''deviceready'']
                else
                  [AddEventListener Document ''DOMContentLoaded'',
                   AddEventListener Window ''load'']) \<rparr>"
  using assms by (simp add: whenReady_def Let_def emit_def setReadyCheck_def)

theorem arming_strategy_witness:
  "deviceReadyAt (dev newWorld) = 0 \<and>
   readyCheckFn (dev newWorld) = Some \<lparr> monitor = False, queue = None \<rparr> \<and>
   \<not> monitor \<lparr> monitor = False, queue = None \<rparr> \<and>
   trace (whenReady 1 2 False parsedHost newWorld) = [SetTimeout 0] \<and>
   trace (whenReady 1 2 False cordovaHost newWorld) = [AddEventListener Document ''deviceready''] \<and>
   trace (whenReady 1 2 False loadingHost newWorld) =
     [AddEventListener Document ''DOMContentLoaded'', AddEventListener Window ''load'']"
  using arming_strategy [of newWorld "\<lparr> monitor = False, queue = None \<rparr>" 1 2 parsedHost]
    arming_strategy [of newWorld "\<lparr> monitor = False, queue = None \<rparr>" 1 2 cordovaHost]
    arming_strategy [of newWorld "\<lparr> monitor = False, queue = None \<rparr>" 1 2 loadingHost]
  by (simp add: newWorld_def newDevice_def loadingHost_def parsedHost_def cordovaHost_def)

section \<open>The media queries\<close>

text \<open>
  Claim C9. \<^verbatim>\<open>canPlayAudio\<close> and \<^verbatim>\<open>canPlayVideo\<close> are functions of the capability record
  and the kind alone (they return a boolean and write nothing, which is what their types
  say here). Each returns false for every string that is not one of the kinds it compares
  with, and for every kind whose flags are all false.
\<close>

theorem canPlay_false:
  "(type \<notin> set audioKinds \<longrightarrow> \<not> canPlayAudio d type) \<and>
   (type \<notin> set videoKinds \<longrightarrow> \<not> canPlayVideo d type) \<and>
   (True \<notin> set (audioFlags d type) \<longrightarrow> \<not> canPlayAudio d type) \<and>
   (True \<notin> set (videoFlags d type) \<longrightarrow> \<not> canPlayVideo d type)"
  by (auto simp: canPlayAudio_def canPlayVideo_def audioKinds_def videoKinds_def
      audioFlags_def videoFlags_def split: if_splits)

theorem canPlay_false_witness:
  "''flac'' \<notin> set audioKinds \<and> \<not> canPlayAudio (newDevice\<lparr>mp3 := True\<rparr>) ''flac'' \<and>
   ''avi'' \<notin> set videoKinds \<and> \<not> canPlayVideo (newDevice\<lparr>mp4Video := True\<rparr>) ''avi'' \<and>
   True \<notin> set (audioFlags (newDevice\<lparr>mp3 := True\<rparr>) ''ogg'') \<and>
   \<not> canPlayAudio (newDevice\<lparr>mp3 := True\<rparr>) ''ogg'' \<and>
   True \<notin> set (videoFlags (newDevice\<lparr>mp4Video := True\<rparr>) ''webm'') \<and>
   \<not> canPlayVideo (newDevice\<lparr>mp4Video := True\<rparr>) ''webm''"
  using canPlay_false [of "''flac''" "newDevice\<lparr>mp3 := True\<rparr>"]
    canPlay_false [of "''avi''" "newDevice\<lparr>mp4Video := True\<rparr>"]
    canPlay_false [of "''ogg''" "newDevice\<lparr>mp3 := True\<rparr>"]
    canPlay_false [of "''webm''" "newDevice\<lparr>mp4Video := True\<rparr>"]
  by (simp add: audioKinds_def videoKinds_def audioFlags_def videoFlags_def newDevice_def)

text \<open>
  Claim C10. The queries accept alias kinds: audio \<^verbatim>\<open>'ogg'\<close> is true when the ogg or the
  opus flag is set; video \<^verbatim>\<open>'ogg'\<close> and \<^verbatim>\<open>'ogv'\<close> are both true exactly when the oggVideo
  flag is set; video \<^verbatim>\<open>'webm'\<close> is true when webmVideo or vp9Video is set, video
  \<^verbatim>\<open>'mp4'\<close> when mp4Video or h264Video is set, and video \<^verbatim>\<open>'mpeg'\<close> exactly when hlsVideo
  is set.
\<close>

theorem canPlay_aliases:
  "canPlayAudio d ''ogg'' = (ogg d \<or> opus d) \<and>
   canPlayVideo d ''ogg'' = oggVideo d \<and>
   canPlayVideo d ''ogv'' = oggVideo d \<and>
   canPlayVideo d ''webm'' = (webmVideo d \<or> vp9Video d) \<and>
   canPlayVideo d ''mp4'' = (mp4Video d \<or> h264Video d) \<and>
   canPlayVideo d ''mpeg'' = hlsVideo d"
  by (simp add: canPlayAudio_def canPlayVideo_def)

end
